theory Spec2Isabelle
  imports Main
begin

section \<open>JavaScript values\<close>

text \<open>
  The server is TypeScript: its type assertions vanish at run time, so the handlers work on
  whatever the JSON-RPC request and the upstream HTTP response carry. A value is therefore a
  JavaScript value built from JSON data, plus \<open>undefined\<close>. Strings are byte lists (the
  UTF-8 text of a well-formed string). An object is the list of its own properties in
  enumeration order, with distinct keys.

  A finite number is kept as the decimal \<open>m * 10^e\<close> that prints it (the shortest digits
  that read back as the same double), which is all the source ever does with a number: print
  it or test it for zero. The two infinities are what \<open>JSON.parse\<close> gives for a literal beyond
  the range of a double (\<open>1e400\<close>); JSON text has no NaN.
\<close>

datatype js_number = Dec int int | PosInfinity | NegInfinity

datatype jsval =
    JUndefined
  | JNull
  | JBool bool
  | JNum js_number
  | JStr string
  | JArr "jsval list"
  | JObj "(string \<times> jsval) list"

subsection \<open>Printing numbers\<close>

fun digits :: "nat \<Rightarrow> string" where
  "digits n = (if n < 10 then [''0123456789'' ! n]
               else digits (n div 10) @ [''0123456789'' ! (n mod 10)])"

declare digits.simps [simp del]

text \<open>
  ECMAScript \<open>Number::toString\<close> in radix 10. With \<open>s\<close> the digits of the number without
  trailing zeros, \<open>k\<close> their count and \<open>n\<close> the position of the decimal point: plain digits
  when \<open>k \<le> n \<le> 21\<close>, a decimal point inside when \<open>0 < n \<le> 21\<close>, leading \<open>0.00\<close> when
  \<open>-6 < n \<le> 0\<close>, exponent notation otherwise.
\<close>

definition exponent_str :: "int \<Rightarrow> string" where
  "exponent_str n = (if n - 1 < 0 then ''e-'' @ digits (nat (1 - n)) else ''e+'' @ digits (nat (n - 1)))"

definition number_to_string :: "js_number \<Rightarrow> string" where
  "number_to_string x =
     (case x of
        PosInfinity \<Rightarrow> ''Infinity''
      | NegInfinity \<Rightarrow> ''-Infinity''
      | Dec m e \<Rightarrow>
        if m = 0 then ''0''
        else
          let ds = digits (nat \<bar>m\<bar>);
              s = rev (dropWhile (\<lambda>c. c = CHR ''0'') (rev ds));
              k = int (length s);
              n = e + int (length ds);
              body =
                (if k \<le> n \<and> n \<le> 21 then s @ replicate (nat (n - k)) CHR ''0''
                 else if 0 < n \<and> n \<le> 21 then take (nat n) s @ ''.'' @ drop (nat n) s
                 else if - 6 < n \<and> n \<le> 0 then ''0.'' @ replicate (nat (- n)) CHR ''0'' @ s
                 else if k = 1 then s @ exponent_str n
                 else take 1 s @ ''.'' @ drop 1 s @ exponent_str n)
          in (if m < 0 then ''-'' @ body else body))"

subsection \<open>Truthiness, property reads, string conversion\<close>

text \<open>\<open>ToBoolean\<close>: the falsy values are undefined, null, false, zero and the empty string.\<close>

fun truthy :: "jsval \<Rightarrow> bool" where
  "truthy JUndefined = False"
| "truthy JNull = False"
| "truthy (JBool b) = b"
| "truthy (JNum (Dec m e)) = (m \<noteq> 0)"
| "truthy (JNum PosInfinity) = True"
| "truthy (JNum NegInfinity) = True"
| "truthy (JStr s) = (s \<noteq> [])"
| "truthy (JArr xs) = True"
| "truthy (JObj kvs) = True"

text \<open>\<open>a || b\<close> on values whose evaluation has no effect.\<close>

definition js_or :: "jsval \<Rightarrow> jsval \<Rightarrow> jsval" where
  "js_or a b = (if truthy a then a else b)"

datatype ErrorCode = MethodNotFound | InternalError

record http_response =
  status :: nat
  data :: jsval

text \<open>
  What a \<open>throw\<close> carries. \<open>AxiosError\<close> holds the error's message and, when the server
  answered, its response; it is the one kind for which \<open>axios.isAxiosError\<close> is true.
\<close>

datatype thrown =
    Error string
  | TypeError
  | ReferenceError string
  | AxiosError string "http_response option"
  | McpError ErrorCode string

fun isAxiosError :: "thrown \<Rightarrow> bool" where
  "isAxiosError (AxiosError msg r) = True"
| "isAxiosError e = False"

definition nullish :: "jsval \<Rightarrow> bool" where
  "nullish v = (v = JUndefined \<or> v = JNull)"

text \<open>
  The value of the property \<open>k\<close> of a value that is neither null nor undefined. The source
  reads data properties only (\<open>query\<close>, \<open>search_recency_filter\<close>, \<open>choices\<close>,
  \<open>message\<close>, \<open>content\<close>, \<open>citations\<close>, \<open>error\<close>); an array, a string, a number
  and a boolean have none of them, so there the value is undefined.
\<close>

fun prop_of :: "jsval \<Rightarrow> string \<Rightarrow> jsval" where
  "prop_of (JObj kvs) k = (case map_of kvs k of None \<Rightarrow> JUndefined | Some v \<Rightarrow> v)"
| "prop_of v k = JUndefined"

text \<open>\<open>v.k\<close>: a TypeError on null and undefined.\<close>

definition get_prop :: "jsval \<Rightarrow> string \<Rightarrow> thrown + jsval" where
  "get_prop v k = (if nullish v then Inl TypeError else Inr (prop_of v k))"

text \<open>\<open>v?.k\<close>: undefined on null and undefined.\<close>

definition opt_prop :: "jsval \<Rightarrow> string \<Rightarrow> jsval" where
  "opt_prop v k = (if nullish v then JUndefined else prop_of v k)"

text \<open>
  \<open>v[i]\<close> for a literal index \<open>i\<close>: the element of an array, the character of a string
  (its byte, for ASCII text), the property named by the digits of \<open>i\<close> of an object.
\<close>

fun get_index :: "jsval \<Rightarrow> nat \<Rightarrow> thrown + jsval" where
  "get_index JUndefined i = Inl TypeError"
| "get_index JNull i = Inl TypeError"
| "get_index (JArr xs) i = Inr (if i < length xs then xs ! i else JUndefined)"
| "get_index (JStr s) i = Inr (if i < length s then JStr [s ! i] else JUndefined)"
| "get_index (JObj kvs) i = Inr (prop_of (JObj kvs) (digits i))"
| "get_index v i = Inr JUndefined"

fun join :: "string \<Rightarrow> string list \<Rightarrow> string" where
  "join sep [] = []"
| "join sep [x] = x"
| "join sep (x # y # ys) = x @ sep @ join sep (y # ys)"

text \<open>
  \<open>ToString\<close>, as a template literal applies it. An object is converted through its
  \<open>toString\<close> property: without an own one that is \<open>Object.prototype.toString\<close>, which
  gives \<open>[object Object]\<close>; an own \<open>toString\<close> property of these values is data, not a
  function, and then neither it nor \<open>valueOf\<close> yields a primitive, so the conversion throws
  a TypeError. An array joins the conversions of its elements with commas (null and undefined
  elements as the empty string), and throws when the conversion of an element does.
\<close>

fun to_string :: "jsval \<Rightarrow> thrown + string"
  and to_string_elems :: "jsval list \<Rightarrow> thrown + string list" where
  "to_string JUndefined = Inr ''undefined''"
| "to_string JNull = Inr ''null''"
| "to_string (JBool b) = Inr (if b then ''true'' else ''false'')"
| "to_string (JNum x) = Inr (number_to_string x)"
| "to_string (JStr s) = Inr s"
| "to_string (JArr xs) =
     (case to_string_elems xs of Inl e \<Rightarrow> Inl e | Inr ss \<Rightarrow> Inr (join '','' ss))"
| "to_string (JObj kvs) =
     (if map_of kvs ''toString'' = None then Inr ''[object Object]'' else Inl TypeError)"
| "to_string_elems [] = Inr []"
| "to_string_elems (x # xs) =
     (case (if nullish x then Inr [] else to_string x) of
        Inl e \<Rightarrow> Inl e
      | Inr s \<Rightarrow>
          (case to_string_elems xs of Inl e \<Rightarrow> Inl e | Inr ss \<Rightarrow> Inr (s # ss)))"

subsection \<open>JSON.stringify with an indent of two spaces\<close>

definition hex4 :: "nat \<Rightarrow> string" where
  "hex4 n = [''0123456789abcdef'' ! (n div 4096 mod 16), ''0123456789abcdef'' ! (n div 256 mod 16),
             ''0123456789abcdef'' ! (n div 16 mod 16), ''0123456789abcdef'' ! (n mod 16)]"

definition escape_char :: "char \<Rightarrow> string" where
  "escape_char c =
     (if c = CHR 0x08 then [CHR 0x5C, CHR ''b'']
      else if c = CHR 0x09 then [CHR 0x5C, CHR ''t'']
      else if c = CHR 0x0A then [CHR 0x5C, CHR ''n'']
      else if c = CHR 0x0C then [CHR 0x5C, CHR ''f'']
      else if c = CHR 0x0D then [CHR 0x5C, CHR ''r'']
      else if c = CHR 0x22 then [CHR 0x5C, CHR 0x22]
      else if c = CHR 0x5C then [CHR 0x5C, CHR 0x5C]
      else if (of_char c :: nat) < 32 then [CHR 0x5C, CHR ''u''] @ hex4 (of_char c)
      else [c])"

definition quote :: "string \<Rightarrow> string" where
  "quote s = [CHR 0x22] @ concat (map escape_char s) @ [CHR 0x22]"

definition indent :: "nat \<Rightarrow> string" where
  "indent d = replicate (2 * d) CHR '' ''"

text \<open>
  \<open>serialize d v\<close> is the text of \<open>v\<close> at nesting depth \<open>d\<close>. A property whose value is
  undefined is left out of an object; an undefined array element prints as \<open>null\<close>, which is
  also what \<open>serialize\<close> gives for undefined itself. A number that is not finite prints as
  \<open>null\<close>. A \<open>toJSON\<close> property is called only when it is a function, which no value here
  is.
\<close>

fun serialize :: "nat \<Rightarrow> jsval \<Rightarrow> string"
  and serialize_elems :: "nat \<Rightarrow> jsval list \<Rightarrow> string list"
  and serialize_props :: "nat \<Rightarrow> (string \<times> jsval) list \<Rightarrow> string list" where
  "serialize d JUndefined = ''null''"
| "serialize d JNull = ''null''"
| "serialize d (JBool b) = (if b then ''true'' else ''false'')"
| "serialize d (JNum x) =
     (case x of Dec m e \<Rightarrow> number_to_string x | PosInfinity \<Rightarrow> ''null'' | NegInfinity \<Rightarrow> ''null'')"
| "serialize d (JStr s) = quote s"
| "serialize d (JArr xs) =
     (if xs = [] then ''[]''
      else ''['' @ [CHR 0x0A] @ indent (Suc d)
           @ join ('','' @ [CHR 0x0A] @ indent (Suc d)) (serialize_elems (Suc d) xs)
           @ [CHR 0x0A] @ indent d @ '']'')"
| "serialize d (JObj kvs) =
     (let ps = serialize_props (Suc d) kvs in
      if ps = [] then ''{}''
      else ''{'' @ [CHR 0x0A] @ indent (Suc d)
           @ join ('','' @ [CHR 0x0A] @ indent (Suc d)) ps
           @ [CHR 0x0A] @ indent d @ ''}'')"
| "serialize_elems d [] = []"
| "serialize_elems d (x # xs) = serialize d x # serialize_elems d xs"
| "serialize_props d [] = []"
| "serialize_props d ((k, v) # kvs) =
     (if v = JUndefined then serialize_props d kvs
      else (quote k @ '': '' @ serialize d v) # serialize_props d kvs)"

text \<open>\<open>JSON.stringify(v, null, 2)\<close> for a value \<open>v\<close> other than undefined.\<close>

definition JSON_stringify :: "jsval \<Rightarrow> string" where
  "JSON_stringify v = serialize 0 v"

section \<open>Configuration and startup\<close>

record server_config =
  model :: string
  maxTokens :: js_number
  temperature :: js_number

text \<open>\<open>process.env\<close>: a variable that is not set reads as undefined.\<close>

type_synonym process_env = "string \<Rightarrow> string option"

text \<open>\<open>Array.prototype.indexOf\<close>: the first position of \<open>x\<close>, or \<open>-1\<close>.\<close>

fun indexOf :: "'a list \<Rightarrow> 'a \<Rightarrow> int" where
  "indexOf [] x = - 1"
| "indexOf (y # ys) x =
     (if y = x then 0 else (let i = indexOf ys x in if i = - 1 then - 1 else i + 1))"

text \<open>\<open>xs[i]\<close> on an array of strings: undefined (\<open>None\<close>) out of range.\<close>

definition at_index :: "'a list \<Rightarrow> int \<Rightarrow> 'a option" where
  "at_index xs i = (if 0 \<le> i \<and> i < int (length xs) then Some (xs ! nat i) else None)"

text \<open>
  \<^verbatim>\<open>const modelIndex = process.argv.indexOf('--model');\<close>
  \<^verbatim>\<open>const model = modelIndex !== -1 ? process.argv[modelIndex + 1] : 'sonar-pro';\<close>
\<close>

definition model_from_argv :: "string list \<Rightarrow> string option" where
  "model_from_argv argv =
     (let modelIndex = indexOf argv ''--model''
      in if modelIndex \<noteq> - 1 then at_index argv (modelIndex + 1) else Some ''sonar-pro'')"

definition array_includes :: "'a list \<Rightarrow> 'a \<Rightarrow> bool" where
  "array_includes xs x = (x \<in> set xs)"

definition invalid_model_message :: string where
  "invalid_model_message =
     ''Invalid model. Must be either '' @ [CHR 0x22] @ ''sonar'' @ [CHR 0x22] @ '' or ''
     @ [CHR 0x22] @ ''sonar-pro'' @ [CHR 0x22]"

text \<open>
  \<^verbatim>\<open>if (!['sonar', 'sonar-pro'].includes(model)) { throw new Error(...) }\<close>
  An undefined model (\<open>--model\<close> as the last argument) is not in the list either.
\<close>

definition check_model :: "string option \<Rightarrow> thrown + string" where
  "check_model m =
     (case m of
        Some s \<Rightarrow>
          if array_includes [''sonar'', ''sonar-pro''] s then Inr s
          else Inl (Error invalid_model_message)
      | None \<Rightarrow> Inl (Error invalid_model_message))"

text \<open>
  The configuration of a server whose model passed the check: \<open>maxTokens\<close> and
  \<open>temperature\<close> are the constants 8192 and 0.2 of the source.
\<close>

definition new_config :: "string \<Rightarrow> server_config" where
  "new_config m = \<lparr>model = m, maxTokens = Dec 8192 0, temperature = Dec 2 (- 1)\<rparr>"

text \<open>What the process does while it starts, in order.\<close>

datatype event =
    DotenvConfig
  | ConsoleError string
  | ConsoleLog string
  | ServerCreated string string
  | RequestHandlerSet string
  | ErrorHandlerSet
  | SigintHandlerSet
  | StdioConnected
  | RouteSet string string
  | HttpListening jsval

text \<open>The events that bind a transport: the stdio connection, the HTTP server's listen.\<close>

fun binds_transport :: "event \<Rightarrow> bool" where
  "binds_transport StdioConnected = True"
| "binds_transport (HttpListening port) = True"
| "binds_transport ev = False"

text \<open>The events that make the server able to serve a request: a handler registration.\<close>

fun serves_requests :: "event \<Rightarrow> bool" where
  "serves_requests (RequestHandlerSet schema) = True"
| "serves_requests ev = False"

text \<open>
  The stdio variant (the class \<open>PerplexityServer\<close>): the constructor checks the model, logs
  it, creates the server and sets the handlers; \<open>run\<close> connects the stdio transport.
\<close>

definition PerplexityServer_constructor ::
    "string list \<Rightarrow> event list \<Rightarrow> (thrown + server_config) \<times> event list" where
  "PerplexityServer_constructor argv evs =
     (case check_model (model_from_argv argv) of
        Inl e \<Rightarrow> (Inl e, evs)
      | Inr m \<Rightarrow>
          (Inr (new_config m),
           evs @ [ConsoleError (''Using Perplexity model: '' @ m),
                  ServerCreated ''perplexity-search-server'' ''0.1.0'',
                  RequestHandlerSet ''tools/list'',
                  RequestHandlerSet ''tools/call'',
                  ErrorHandlerSet,
                  SigintHandlerSet]))"

definition run :: "event list \<Rightarrow> event list" where
  "run evs = evs @ [StdioConnected, ConsoleError ''Perplexity Search MCP server running on stdio'']"

text \<open>
  The module body of the stdio variant: \<^verbatim>\<open>dotenv.config()\<close>, then
  \<^verbatim>\<open>const server = new PerplexityServer(); server.run()\<close>. An error thrown by the constructor
  ends the module before \<open>run\<close> is reached.
\<close>

definition main_stdio :: "string list \<Rightarrow> (thrown + server_config) \<times> event list" where
  "main_stdio argv =
     (case PerplexityServer_constructor argv [DotenvConfig] of
        (Inl e, evs) \<Rightarrow> (Inl e, evs)
      | (Inr cfg, evs) \<Rightarrow> (Inr cfg, run evs))"

text \<open>
  The module body of the HTTP variant (\<open>index.ts\<close>), statement by statement: the same model
  check at the top level and the log of the model. Its line 33, \<^verbatim>\<open>server = new Server(...)\<close>,
  assigns to the name \<open>server\<close>, which the module never declares: module code is strict, so
  after the right-hand side has built the server the assignment throws a ReferenceError and
  the module ends there. The handlers, the two routes and \<open>app.listen\<close> of the later lines are
  not reached, and the environment (read for \<open>PORT\<close> in those lines) is not read.
\<close>

definition main_http :: "string list \<Rightarrow> process_env \<Rightarrow> (thrown + server_config) \<times> event list" where
  "main_http argv env =
     (case check_model (model_from_argv argv) of
        Inl e \<Rightarrow> (Inl e, [DotenvConfig])
      | Inr m \<Rightarrow>
          (Inl (ReferenceError ''server''),
           [DotenvConfig,
            ConsoleError (''Using Perplexity model: '' @ m),
            ServerCreated ''perplexity-search-server'' ''0.1.0'']))"

section \<open>The handlers\<close>

record http_request =
  http_method :: string
  url :: string
  headers :: "(string \<times> string) list"
  body :: jsval

text \<open>
  What the outbound call meets: an HTTP answer with its status and parsed body, or a value
  thrown inside the call (a network failure is an \<open>AxiosError\<close> without a response).
\<close>

datatype upstream = Answered http_response | Threw thrown

text \<open>The gateway: what the call meets, given the earlier calls and this one.\<close>

type_synonym gateway = "http_request list \<Rightarrow> http_request \<Rightarrow> upstream"

text \<open>
  \<open>axios.post\<close> with axios's default status validation: a status from 200 to 299 resolves
  with the response, any other status rejects with an \<open>AxiosError\<close> that carries it.
\<close>

definition axios_post :: "upstream \<Rightarrow> thrown + http_response" where
  "axios_post u =
     (case u of
        Answered r \<Rightarrow>
          if 200 \<le> status r \<and> status r < 300 then Inr r
          else Inl (AxiosError (''Request failed with status code '' @ digits (status r)) (Some r))
      | Threw e \<Rightarrow> Inl e)"

text \<open>The effects of a handler: the outbound calls issued and the lines written to stderr.\<close>

record world =
  outbound :: "http_request list"
  stderr :: "string list"

record content_block =
  block_type :: string
  block_text :: string

text \<open>A tool result; \<open>isError = None\<close> is a result without the \<open>isError\<close> property.\<close>

record CallToolResult =
  content :: "content_block list"
  isError :: "bool option"

record CallToolRequest =
  name :: string
  arguments :: jsval

subsection \<open>List tools\<close>

definition search_descriptor :: jsval where
  "search_descriptor =
     JObj [(''name'', JStr ''search''),
           (''description'', JStr (''Perform a web search using Perplexity'' @ [CHR 0x27] @ ''s API, which provides detailed and contextually relevant results with citations. By default, no time filtering is applied to search results.'')),
           (''inputSchema'', JObj
              [(''type'', JStr ''object''),
               (''properties'', JObj
                  [(''query'', JObj
                      [(''type'', JStr ''string''),
                       (''description'', JStr ''The search query to perform'')]),
                   (''search_recency_filter'', JObj
                      [(''type'', JStr ''string''),
                       (''description'', JStr ''Filter search results by recency (options: month, week, day, hour). If not specified, no time filtering is applied.''),
                       (''enum'', JArr [JStr ''month'', JStr ''week'', JStr ''day'', JStr ''hour''])])]),
               (''required'', JArr [JStr ''query''])])]"

definition list_tools :: "world \<Rightarrow> (thrown + jsval) \<times> world" where
  "list_tools w = (Inr (JObj [(''tools'', JArr [search_descriptor])]), w)"

subsection \<open>Call tool\<close>

text \<open>
  \<open>obj.k = v\<close> on the property list: the value is replaced where the key exists, and a new
  key goes to the end.
\<close>

fun set_prop :: "(string \<times> jsval) list \<Rightarrow> string \<Rightarrow> jsval \<Rightarrow> (string \<times> jsval) list" where
  "set_prop [] k v = [(k, v)]"
| "set_prop ((k', v') # kvs) k v = (if k' = k then (k, v) # kvs else (k', v') # set_prop kvs k v)"

text \<open>The text of an environment variable inside a template literal.\<close>

definition env_text :: "process_env \<Rightarrow> string \<Rightarrow> string" where
  "env_text env k = (case env k of None \<Rightarrow> ''undefined'' | Some s \<Rightarrow> s)"

text \<open>
  \<^verbatim>\<open>{ content: response.data.choices[0].message.content,\<close>
  \<^verbatim>\<open>  citations: response.data.citations || [] }\<close>
  Each read of a property of null or undefined throws a TypeError.
\<close>

definition format_response :: "http_response \<Rightarrow> thrown + jsval" where
  "format_response response =
     (case get_prop (data response) ''choices'' of
        Inl e \<Rightarrow> Inl e
      | Inr choices \<Rightarrow>
     (case get_index choices 0 of
        Inl e \<Rightarrow> Inl e
      | Inr choice \<Rightarrow>
     (case get_prop choice ''message'' of
        Inl e \<Rightarrow> Inl e
      | Inr message \<Rightarrow>
     (case get_prop message ''content'' of
        Inl e \<Rightarrow> Inl e
      | Inr answer \<Rightarrow>
     (case get_prop (data response) ''citations'' of
        Inl e \<Rightarrow> Inl e
      | Inr citations \<Rightarrow>
          Inr (JObj [(''content'', answer), (''citations'', js_or citations (JArr []))]))))))"

text \<open>
  The catch block: an axios error becomes a result with \<open>isError: true\<close>, whose message is
  \<^verbatim>\<open>errorData?.error || errorData?.message || axiosError.message\<close>; anything else is thrown
  again. The template literal converts the message to a string; a TypeError of that
  conversion is thrown inside the catch block and leaves the handler.
\<close>

definition catch_block :: "thrown \<Rightarrow> thrown + CallToolResult" where
  "catch_block error =
     (if isAxiosError error then
        (case error of
           AxiosError message response \<Rightarrow>
             (let errorData = (case response of None \<Rightarrow> JUndefined | Some r \<Rightarrow> data r);
                  errorMessage = js_or (opt_prop errorData ''error'')
                                   (js_or (opt_prop errorData ''message'') (JStr message))
              in (case to_string errorMessage of
                    Inl e \<Rightarrow> Inl e
                  | Inr shown \<Rightarrow>
                      Inr \<lparr>content = [\<lparr>block_type = ''text'',
                                         block_text = ''Perplexity API error: '' @ shown\<rparr>],
                           isError = Some True\<rparr>))
         | _ \<Rightarrow> Inl error)
      else Inl error)"

text \<open>
  The payload of the outbound call, from the two properties read off the arguments:
  \<open>search_recency_filter\<close> is added when its value is truthy.
\<close>

definition search_payload :: "server_config \<Rightarrow> jsval \<Rightarrow> jsval \<Rightarrow> (string \<times> jsval) list" where
  "search_payload cfg query search_recency_filter =
     (let payload = [(''model'', JStr (model cfg)),
                     (''messages'', JArr [JObj [(''role'', JStr ''user''), (''content'', query)]]),
                     (''max_tokens'', JNum (maxTokens cfg)),
                     (''temperature'', JNum (temperature cfg))]
      in if truthy search_recency_filter
         then set_prop payload ''search_recency_filter'' search_recency_filter
         else payload)"

text \<open>The one outbound call of a search with the arguments \<open>args\<close>.\<close>

definition search_request :: "server_config \<Rightarrow> process_env \<Rightarrow> jsval \<Rightarrow> http_request" where
  "search_request cfg env args =
     \<lparr>http_method = ''POST'',
      url = ''https://api.perplexity.ai/chat/completions'',
      headers = [(''Authorization'', ''Bearer '' @ env_text env ''PERPLEXITY_API_KEY''),
                 (''Content-Type'', ''application/json'')],
      body = JObj (search_payload cfg (prop_of args ''query'') (prop_of args ''search_recency_filter''))\<rparr>"

text \<open>
  The \<open>search\<close> case. The destructuring of the arguments stands before the \<open>try\<close>: on null or
  undefined arguments its TypeError leaves the handler. Inside the \<open>try\<close> the payload is
  built, one line goes to stderr, and the one call is made; what it throws, and what the
  reading of the response throws, goes to the catch block.
\<close>

definition search ::
    "server_config \<Rightarrow> process_env \<Rightarrow> gateway \<Rightarrow> jsval \<Rightarrow> world \<Rightarrow> (thrown + CallToolResult) \<times> world" where
  "search cfg env gw args w =
     (if nullish args then (Inl TypeError, w)
      else
        (let request = search_request cfg env args;
             w1 = w\<lparr>stderr := stderr w @
                    [''Using model: '' @ model cfg
                     @ '', max_tokens: '' @ number_to_string (maxTokens cfg)
                     @ '', temperature: '' @ number_to_string (temperature cfg)]\<rparr>;
             answer = gw (outbound w1) request;
             w2 = w1\<lparr>outbound := outbound w1 @ [request]\<rparr>
         in (case axios_post answer of
               Inl error \<Rightarrow> (catch_block error, w2)
             | Inr response \<Rightarrow>
                 (case format_response response of
                    Inl error \<Rightarrow> (catch_block error, w2)
                  | Inr formattedResponse \<Rightarrow>
                      (Inr \<lparr>content = [\<lparr>block_type = ''text'',
                                         block_text = JSON_stringify formattedResponse\<rparr>],
                            isError = None\<rparr>, w2)))))"

text \<open>The switch on the tool name.\<close>

definition call_tool ::
    "server_config \<Rightarrow> process_env \<Rightarrow> gateway \<Rightarrow> CallToolRequest \<Rightarrow> world \<Rightarrow> (thrown + CallToolResult) \<times> world" where
  "call_tool cfg env gw request w =
     (if name request = ''search'' then search cfg env gw (arguments request) w
      else (Inl (McpError MethodNotFound (''Unknown tool: '' @ name request)), w))"

section \<open>The protocol layer\<close>

datatype request = ListTools | CallTool CallToolRequest

datatype reply = ToolsReply jsval | CallReply CallToolResult | ErrorReply thrown

text \<open>One request, through the handler registered for it.\<close>

definition handle ::
    "server_config \<Rightarrow> process_env \<Rightarrow> gateway \<Rightarrow> request \<Rightarrow> world \<Rightarrow> (thrown + reply) \<times> world" where
  "handle cfg env gw r w =
     (case r of
        ListTools \<Rightarrow> (case list_tools w of (res, w') \<Rightarrow> (map_sum id ToolsReply res, w'))
      | CallTool c \<Rightarrow> (case call_tool cfg env gw c w of (res, w') \<Rightarrow> (map_sum id CallReply res, w')))"

fun isMcpError :: "thrown \<Rightarrow> bool" where
  "isMcpError (McpError code msg) = True"
| "isMcpError e = False"

text \<open>
  Modelled from the spec: the protocol layer that calls the handlers is the SDK's server and
  transport, which the sources only import. After the spec, a connection takes its requests
  in arrival order; a protocol error thrown by a handler fails that request alone and the
  connection goes on; any other thrown value reaches the transport's error handler, which
  may end the connection (\<open>fatal\<close> says for which values it does).
\<close>

fun serve ::
    "(thrown \<Rightarrow> bool) \<Rightarrow> server_config \<Rightarrow> process_env \<Rightarrow> gateway \<Rightarrow> request list \<Rightarrow> world
       \<Rightarrow> reply list \<times> world" where
  "serve fatal cfg env gw [] w = ([], w)"
| "serve fatal cfg env gw (r # rs) w =
     (case handle cfg env gw r w of
        (Inr rep, w') \<Rightarrow>
          (case serve fatal cfg env gw rs w' of (reps, w'') \<Rightarrow> (rep # reps, w''))
      | (Inl e, w') \<Rightarrow>
          (if isMcpError e then
             (case serve fatal cfg env gw rs w' of (reps, w'') \<Rightarrow> (ErrorReply e # reps, w''))
           else if fatal e then ([ErrorReply e], w')
           else (case serve fatal cfg env gw rs w' of (reps, w'') \<Rightarrow> (ErrorReply e # reps, w''))))"


section \<open>Example inputs\<close>

text \<open>
  Concrete requests, upstream answers and gateways, on which the properties below are
  evaluated.
\<close>

definition example_env :: process_env where
  "example_env = [''PERPLEXITY_API_KEY'' \<mapsto> ''pplx-key'']"

definition empty_world :: world where
  "empty_world = \<lparr>outbound = [], stderr = []\<rparr>"

definition answering :: "http_response \<Rightarrow> gateway" where
  "answering r = (\<lambda>history request. Answered r)"

definition throwing :: "thrown \<Rightarrow> gateway" where
  "throwing e = (\<lambda>history request. Threw e)"

definition never_fatal :: "thrown \<Rightarrow> bool" where
  "never_fatal e = False"

definition france_request :: CallToolRequest where
  "france_request = \<lparr>name = ''search'', arguments = JObj [(''query'', JStr ''capital of France'')]\<rparr>"

definition week_request :: CallToolRequest where
  "week_request =
     \<lparr>name = ''search'',
      arguments = JObj [(''query'', JStr ''capital of France''),
                        (''search_recency_filter'', JStr ''week'')]\<rparr>"

definition year_request :: CallToolRequest where
  "year_request =
     \<lparr>name = ''search'',
      arguments = JObj [(''query'', JStr ''capital of France''),
                        (''search_recency_filter'', JStr ''year'')]\<rparr>"

definition unknown_request :: CallToolRequest where
  "unknown_request = \<lparr>name = ''translate'', arguments = JObj [(''query'', JStr ''bonjour'')]\<rparr>"

definition paris_response :: http_response where
  "paris_response =
     \<lparr>status = 200,
      data = JObj [(''choices'', JArr [JObj [(''message'', JObj [(''content'', JStr ''Paris'')])]]),
                   (''citations'', JArr [JStr ''https://a''])]\<rparr>"

definition bare_response :: http_response where
  "bare_response =
     \<lparr>status = 200,
      data = JObj [(''choices'', JArr [JObj [(''message'', JObj [(''content'', JStr ''Paris'')])]])]\<rparr>"

definition unauthorized_response :: http_response where
  "unauthorized_response = \<lparr>status = 401, data = JObj [(''error'', JStr ''invalid_api_key'')]\<rparr>"

definition empty_error_response :: http_response where
  "empty_error_response =
     \<lparr>status = 500, data = JObj [(''error'', JStr []), (''message'', JStr ''boom'')]\<rparr>"

definition toString_error_response :: http_response where
  "toString_error_response =
     \<lparr>status = 500, data = JObj [(''error'', JObj [(''toString'', JNum (Dec 1 0))])]\<rparr>"

definition no_message_response :: http_response where
  "no_message_response =
     \<lparr>status = 200, data = JObj [(''choices'', JArr [JObj [(''index'', JNum (Dec 0 0))]])]\<rparr>"

definition empty_choices_response :: http_response where
  "empty_choices_response = \<lparr>status = 200, data = JObj [(''choices'', JArr [])]\<rparr>"

definition no_choices_response :: http_response where
  "no_choices_response = \<lparr>status = 200, data = JObj [(''id'', JStr ''r1'')]\<rparr>"

definition null_choice_response :: http_response where
  "null_choice_response = \<lparr>status = 200, data = JObj [(''choices'', JArr [JNull])]\<rparr>"

section \<open>Properties of the search handler\<close>

text \<open>
  A search with arguments that are neither null nor undefined issues its one request, whatever
  the gateway then does; its result is decided by the answer alone.
\<close>

lemma search_issues_request:
  "\<not> nullish args \<Longrightarrow>
     outbound (snd (search cfg env gw args w)) = outbound w @ [search_request cfg env args]"
  by (simp add: search_def Let_def split: sum.splits)

lemma search_result:
  "\<not> nullish args \<Longrightarrow>
     fst (search cfg env gw args w) =
       (case axios_post (gw (outbound w) (search_request cfg env args)) of
          Inl error \<Rightarrow> catch_block error
        | Inr response \<Rightarrow>
            (case format_response response of
               Inl error \<Rightarrow> catch_block error
             | Inr formattedResponse \<Rightarrow>
                 Inr \<lparr>content = [\<lparr>block_type = ''text'',
                                   block_text = JSON_stringify formattedResponse\<rparr>],
                      isError = None\<rparr>))"
  by (simp add: search_def Let_def split: sum.splits)

lemma format_response_ok:
  assumes "get_prop (data response) ''choices'' = Inr (JArr (choice # rest))"
    and "get_prop choice ''message'' = Inr message"
    and "get_prop message ''content'' = Inr answer"
  shows "format_response response =
     Inr (JObj [(''content'', answer),
                (''citations'', js_or (prop_of (data response) ''citations'') (JArr []))])"
  using assms by (auto simp: format_response_def get_prop_def split: if_splits)

lemma format_response_no_choice:
  assumes "prop_of (data response) ''choices'' = JUndefined
           \<or> prop_of (data response) ''choices'' = JArr []"
  shows "format_response response = Inl TypeError"
  using assms by (auto simp: format_response_def get_prop_def nullish_def)

lemma format_response_throws: "format_response response = Inl e \<Longrightarrow> e = TypeError"
  by (auto simp: format_response_def get_prop_def split: sum.splits if_splits
      elim: get_index.elims)

lemma js_or_citations:
  "js_or c (JArr []) = (case c of JUndefined \<Rightarrow> JArr [] | JArr cs \<Rightarrow> JArr cs
                          | other \<Rightarrow> if truthy other then other else JArr [])"
  by (cases c) (auto simp: js_or_def)

lemma catch_block_axios:
  "catch_block (AxiosError msg resp) =
     (case to_string
             (js_or (opt_prop (case resp of None \<Rightarrow> JUndefined | Some r \<Rightarrow> data r) ''error'')
                (js_or (opt_prop (case resp of None \<Rightarrow> JUndefined | Some r \<Rightarrow> data r) ''message'')
                   (JStr msg))) of
        Inl e \<Rightarrow> Inl e
      | Inr shown \<Rightarrow>
          Inr \<lparr>content = [\<lparr>block_type = ''text'',
                            block_text = ''Perplexity API error: '' @ shown\<rparr>],
               isError = Some True\<rparr>)"
  by (simp add: catch_block_def Let_def)

text \<open>
  The conversion succeeds on every string, number and boolean, on null and undefined, and on
  an object without an own \<open>toString\<close> property; it throws on an object with one.
\<close>

lemma to_string_primitive:
  "to_string (JStr s) = Inr s"
  "to_string (JNum x) = Inr (number_to_string x)"
  "to_string (JBool b) = Inr (if b then ''true'' else ''false'')"
  "to_string JNull = Inr ''null''"
  "to_string JUndefined = Inr ''undefined''"
  by simp_all

lemma to_string_object:
  "to_string (JObj kvs) =
     (if ''toString'' \<in> fst ` set kvs then Inl TypeError else Inr ''[object Object]'')"
  by (simp add: map_of_eq_None_iff)

lemma to_string_throws: "to_string v = Inl e \<Longrightarrow> e = TypeError"
  and to_string_elems_throws: "to_string_elems vs = Inl e \<Longrightarrow> e = TypeError"
  by (induction v and vs rule: to_string_to_string_elems.induct)
     (auto split: sum.splits if_splits)

lemma catch_block_other: "\<not> isAxiosError e \<Longrightarrow> catch_block e = Inl e"
  by (simp add: catch_block_def)

lemma map_of_set_prop: "map_of (set_prop kvs k v) = (map_of kvs)(k \<mapsto> v)"
  by (induction kvs) (auto simp: fun_eq_iff)

lemma search_payload_filter:
  "map_of (search_payload cfg q f) ''search_recency_filter'' = (if truthy f then Some f else None)"
  by (simp add: search_payload_def map_of_set_prop)

lemma number_texts:
  "number_to_string (Dec 8192 0) = ''8192''" "number_to_string (Dec 2 (- 1)) = ''0.2''"
  by (simp_all add: number_to_string_def digits.simps)

text \<open>
  The text of the first example of the spec, character by character.
\<close>

lemma paris_text:
  "JSON_stringify (JObj [(''content'', JStr ''Paris''), (''citations'', JArr [JStr ''https://a''])])
     = ''{'' @ [CHR 0x0A] @ ''  '' @ [CHR 0x22] @ ''content'' @ [CHR 0x22] @ '': '' @ [CHR 0x22] @ ''Paris'' @ [CHR 0x22] @ '','' @ [CHR 0x0A]
       @ ''  '' @ [CHR 0x22] @ ''citations'' @ [CHR 0x22] @ '': ['' @ [CHR 0x0A]
       @ ''    '' @ [CHR 0x22] @ ''https://a'' @ [CHR 0x22] @ [CHR 0x0A]
       @ ''  ]'' @ [CHR 0x0A] @ ''}''"
  by (simp add: JSON_stringify_def quote_def escape_char_def indent_def numeral_eq_Suc)

subsection \<open>The success mapping\<close>

text \<open>
  C1, as amended. When the gateway answers a search with a status from 200 to 299 and a body
  whose \<open>choices\<close> is a non-empty list, and the first choice is neither null nor undefined
  and its \<open>message\<close> is neither null nor undefined, the handler returns a result with a
  single text block and no \<open>isError\<close> property. The text is the JSON serialization of the
  object with the first choice's message content as \<open>content\<close> and the body's citations as
  \<open>citations\<close>: the empty list when the field is absent, the list itself when it is a list
  (and for any other value what \<open>||\<close> gives).
\<close>

theorem search_success:
  assumes "name request = ''search''"
    and "\<not> nullish (arguments request)"
    and "gw (outbound w) (search_request cfg env (arguments request)) = Answered response"
    and "200 \<le> status response" and "status response < 300"
    and "get_prop (data response) ''choices'' = Inr (JArr (choice # rest))"
    and "get_prop choice ''message'' = Inr message"
    and "get_prop message ''content'' = Inr answer"
  shows "fst (call_tool cfg env gw request w) =
     Inr \<lparr>content =
            [\<lparr>block_type = ''text'',
              block_text = JSON_stringify
                (JObj [(''content'', answer),
                       (''citations'',
                          (case prop_of (data response) ''citations'' of
                             JUndefined \<Rightarrow> JArr []
                           | JArr cs \<Rightarrow> JArr cs
                           | other \<Rightarrow> if truthy other then other else JArr []))])\<rparr>],
          isError = None\<rparr>"
proof -
  have "axios_post (gw (outbound w) (search_request cfg env (arguments request))) = Inr response"
    using assms(3,4,5) by (simp add: axios_post_def)
  moreover note format_response_ok [OF assms(6,7,8)]
  ultimately show ?thesis
    using assms(1,2) by (simp add: call_tool_def search_result js_or_citations)
qed

text \<open>
  The two examples of the spec: an answer with citations, and one without, whose result
  carries the empty list.
\<close>

theorem search_success_witness:
  "fst (call_tool (new_config ''sonar-pro'') example_env (answering paris_response) france_request empty_world) =
     Inr \<lparr>content =
            [\<lparr>block_type = ''text'',
              block_text = JSON_stringify
                (JObj [(''content'', JStr ''Paris''), (''citations'', JArr [JStr ''https://a''])])\<rparr>],
          isError = None\<rparr>
   \<and> fst (call_tool (new_config ''sonar-pro'') example_env (answering bare_response) france_request empty_world) =
     Inr \<lparr>content =
            [\<lparr>block_type = ''text'',
              block_text = JSON_stringify
                (JObj [(''content'', JStr ''Paris''), (''citations'', JArr [])])\<rparr>],
          isError = None\<rparr>"
proof -
  have n: "name france_request = ''search''" by (simp add: france_request_def)
  have a: "\<not> nullish (arguments france_request)" by (simp add: france_request_def nullish_def)
  have m: "get_prop (JObj [(''message'', JObj [(''content'', JStr ''Paris'')])]) ''message''
             = Inr (JObj [(''content'', JStr ''Paris'')])"
    by (simp add: get_prop_def nullish_def)
  have c: "get_prop (JObj [(''content'', JStr ''Paris'')]) ''content'' = Inr (JStr ''Paris'')"
    by (simp add: get_prop_def nullish_def)
  have p: "get_prop (data paris_response) ''choices''
             = Inr (JArr (JObj [(''message'', JObj [(''content'', JStr ''Paris'')])] # []))"
    by (simp add: paris_response_def get_prop_def nullish_def)
  have b: "get_prop (data bare_response) ''choices''
             = Inr (JArr (JObj [(''message'', JObj [(''content'', JStr ''Paris'')])] # []))"
    by (simp add: bare_response_def get_prop_def nullish_def)
  have "fst (call_tool (new_config ''sonar-pro'') example_env (answering paris_response) france_request empty_world) =
     Inr \<lparr>content =
            [\<lparr>block_type = ''text'',
              block_text = JSON_stringify
                (JObj [(''content'', JStr ''Paris''), (''citations'', JArr [JStr ''https://a''])])\<rparr>],
          isError = None\<rparr>"
    using search_success [OF n a _ _ _ p m c, of "answering paris_response" empty_world "new_config ''sonar-pro''" example_env]
    by (simp add: answering_def paris_response_def)
  moreover have "fst (call_tool (new_config ''sonar-pro'') example_env (answering bare_response) france_request empty_world) =
     Inr \<lparr>content =
            [\<lparr>block_type = ''text'',
              block_text = JSON_stringify
                (JObj [(''content'', JStr ''Paris''), (''citations'', JArr [])])\<rparr>],
          isError = None\<rparr>"
    using search_success [OF n a _ _ _ b m c, of "answering bare_response" empty_world "new_config ''sonar-pro''" example_env]
    by (simp add: answering_def bare_response_def)
  ultimately show ?thesis by simp
qed

text \<open>
  C1 as stated fails on a non-empty \<open>choices\<close> whose first choice has no message to read:
  with the status 200 and \<open>choices\<close> the list \<open>[null]\<close>, or the list \<open>[{index: 0}]\<close>, the
  handler throws a TypeError and returns no result.
\<close>

theorem search_first_choice_counterexample:
  "get_prop (data null_choice_response) ''choices'' = Inr (JArr [JNull])
   \<and> fst (call_tool (new_config ''sonar-pro'') example_env (answering null_choice_response)
            france_request empty_world) = Inl TypeError
   \<and> get_prop (data no_message_response) ''choices'' = Inr (JArr [JObj [(''index'', JNum (Dec 0 0))]])
   \<and> fst (call_tool (new_config ''sonar-pro'') example_env (answering no_message_response)
            france_request empty_world) = Inl TypeError"
  by (simp add: call_tool_def france_request_def nullish_def search_result axios_post_def
      answering_def null_choice_response_def no_message_response_def format_response_def
      get_prop_def catch_block_other)

subsection \<open>The failure mapping\<close>

text \<open>
  C2, as amended. When the outbound call fails with an axios error, the message is chosen by
  truthiness, not by presence: the upstream body's \<open>error\<close> field if it is truthy, else its
  \<open>message\<close> field if that is truthy, else the axios error's own message. Whenever the
  chosen message converts to a string, as every string does, the handler returns a result
  with \<open>isError\<close> true whose single text block is \<open>Perplexity API error: \<close> followed by
  that string; for a chosen message that is a string, the string is the message itself.
\<close>

theorem search_axios_error:
  assumes "name request = ''search''"
    and "\<not> nullish (arguments request)"
    and "axios_post (gw (outbound w) (search_request cfg env (arguments request)))
           = Inl (AxiosError msg resp)"
    and "errorData = (case resp of None \<Rightarrow> JUndefined | Some r \<Rightarrow> data r)"
    and "errorMessage =
           (if truthy (opt_prop errorData ''error'') then opt_prop errorData ''error''
            else if truthy (opt_prop errorData ''message'') then opt_prop errorData ''message''
            else JStr msg)"
    and "to_string errorMessage = Inr shown"
  shows "fst (call_tool cfg env gw request w) =
           Inr \<lparr>content =
                  [\<lparr>block_type = ''text'',
                    block_text = ''Perplexity API error: '' @ shown\<rparr>],
                isError = Some True\<rparr>
         \<and> (errorMessage = JStr t \<longrightarrow> shown = t)"
  using assms by (auto simp: call_tool_def search_result catch_block_axios js_or_def)

text \<open>
  The example of the spec: status 401 with the body \<open>{error: "invalid_api_key"}\<close>.
\<close>

theorem search_axios_error_witness:
  "fst (call_tool (new_config ''sonar-pro'') example_env (answering unauthorized_response)
          france_request empty_world) =
     Inr \<lparr>content = [\<lparr>block_type = ''text'',
                       block_text = ''Perplexity API error: invalid_api_key''\<rparr>],
          isError = Some True\<rparr>"
proof -
  have n: "name france_request = ''search''" by (simp add: france_request_def)
  have a: "\<not> nullish (arguments france_request)" by (simp add: france_request_def nullish_def)
  have p: "axios_post (answering unauthorized_response (outbound empty_world)
             (search_request (new_config ''sonar-pro'') example_env (arguments france_request)))
           = Inl (AxiosError (''Request failed with status code '' @ digits 401)
                    (Some unauthorized_response))"
    by (simp add: axios_post_def answering_def unauthorized_response_def)
  have m: "JStr ''invalid_api_key'' =
           (if truthy (opt_prop (data unauthorized_response) ''error'')
            then opt_prop (data unauthorized_response) ''error''
            else if truthy (opt_prop (data unauthorized_response) ''message'')
            then opt_prop (data unauthorized_response) ''message''
            else JStr (''Request failed with status code '' @ digits 401))"
    by (simp add: unauthorized_response_def opt_prop_def nullish_def)
  have c: "to_string (JStr ''invalid_api_key'') = Inr ''invalid_api_key''"
    by simp
  have d: "data unauthorized_response
           = (case Some unauthorized_response of None \<Rightarrow> JUndefined | Some r \<Rightarrow> data r)"
    by simp
  show ?thesis
    using search_axios_error [where gw = "answering unauthorized_response" and w = empty_world,
        OF n a p d m c]
    by simp
qed

text \<open>
  C2 as stated fails in two ways. Where the \<open>error\<close> field is present and empty, on the body
  \<open>{error: "", message: "boom"}\<close>, the text ends with the \<open>message\<close> field, not with the
  (present) \<open>error\<close> field. Where the chosen message is an object with an own \<open>toString\<close>
  property, on the body \<open>{error: {toString: 1}}\<close>, the handler throws a TypeError and
  returns no result.
\<close>

theorem search_error_field_counterexample:
  "map_of [(''error'', JStr []), (''message'', JStr ''boom'')] ''error'' = Some (JStr [])
   \<and> fst (call_tool (new_config ''sonar-pro'') example_env (answering empty_error_response)
            france_request empty_world) =
       Inr \<lparr>content = [\<lparr>block_type = ''text'', block_text = ''Perplexity API error: boom''\<rparr>],
            isError = Some True\<rparr>
   \<and> ''Perplexity API error: boom'' \<noteq> ''Perplexity API error: '' @ []
   \<and> fst (call_tool (new_config ''sonar-pro'') example_env (answering toString_error_response)
            france_request empty_world) = Inl TypeError"
  by (simp add: call_tool_def france_request_def nullish_def search_result axios_post_def
      answering_def empty_error_response_def toString_error_response_def catch_block_axios
      js_or_def opt_prop_def)

subsection \<open>The recency filter\<close>

text \<open>
  C3, as amended. A search whose arguments carry a \<open>search_recency_filter\<close> is never
  rejected for its value: the one outbound call is made in every case. Its payload carries
  the value unchanged when the value is truthy, which the four tokens month, week, day and
  hour are, and no \<open>search_recency_filter\<close> field when it is falsy (the empty string).
\<close>

theorem recency_filter_forwarded:
  assumes "name request = ''search''"
    and "\<not> nullish (arguments request)"
    and "prop_of (arguments request) ''search_recency_filter'' = f"
    and "body (search_request cfg env (arguments request)) = JObj payload"
  shows "outbound (snd (call_tool cfg env gw request w))
           = outbound w @ [search_request cfg env (arguments request)]
         \<and> map_of payload ''search_recency_filter'' = (if truthy f then Some f else None)
         \<and> (f \<in> set [JStr ''month'', JStr ''week'', JStr ''day'', JStr ''hour'']
              \<longrightarrow> map_of payload ''search_recency_filter'' = Some f)"
  using assms
  by (auto simp: call_tool_def search_issues_request search_request_def search_payload_filter)

theorem recency_filter_forwarded_witness:
  "outbound (snd (call_tool (new_config ''sonar-pro'') example_env (answering paris_response)
                    week_request empty_world))
     = [search_request (new_config ''sonar-pro'') example_env (arguments week_request)]
   \<and> map_of (search_payload (new_config ''sonar-pro'') (JStr ''capital of France'') (JStr ''week''))
        ''search_recency_filter'' = Some (JStr ''week'')"
proof -
  have n: "name week_request = ''search''" by (simp add: week_request_def)
  have a: "\<not> nullish (arguments week_request)" by (simp add: week_request_def nullish_def)
  have f: "prop_of (arguments week_request) ''search_recency_filter'' = JStr ''week''"
    by (simp add: week_request_def)
  have b: "body (search_request (new_config ''sonar-pro'') example_env (arguments week_request))
             = JObj (search_payload (new_config ''sonar-pro'') (JStr ''capital of France'') (JStr ''week''))"
    by (simp add: search_request_def week_request_def)
  show ?thesis
    using recency_filter_forwarded [OF n a f b, of "answering paris_response" empty_world]
    by (simp add: empty_world_def)
qed

text \<open>
  C3 as stated fails on any other non-empty value: with the filter \<open>year\<close> the call is
  made, and its payload carries \<open>year\<close>.
\<close>

theorem recency_filter_rejected_counterexample:
  "JStr ''year'' \<notin> set [JStr ''month'', JStr ''week'', JStr ''day'', JStr ''hour'']
   \<and> prop_of (arguments year_request) ''search_recency_filter'' = JStr ''year''
   \<and> outbound (snd (call_tool (new_config ''sonar-pro'') example_env (answering paris_response)
                      year_request empty_world))
       = [\<lparr>http_method = ''POST'',
           url = ''https://api.perplexity.ai/chat/completions'',
           headers = [(''Authorization'', ''Bearer pplx-key''),
                      (''Content-Type'', ''application/json'')],
           body = JObj [(''model'', JStr ''sonar-pro''),
                        (''messages'', JArr [JObj [(''role'', JStr ''user''),
                                                   (''content'', JStr ''capital of France'')]]),
                        (''max_tokens'', JNum (Dec 8192 0)),
                        (''temperature'', JNum (Dec 2 (- 1))),
                        (''search_recency_filter'', JStr ''year'')]\<rparr>]"
  by (simp add: call_tool_def year_request_def nullish_def search_issues_request search_request_def
      search_payload_def new_config_def env_text_def example_env_def empty_world_def)

text \<open>
  C4. When the arguments of a search have no \<open>search_recency_filter\<close> property, the
  payload of the outbound call is the object of the four fields \<open>model\<close>, \<open>messages\<close>,
  \<open>max_tokens\<close> and \<open>temperature\<close>: it has no \<open>search_recency_filter\<close> field with
  any value.
\<close>

theorem absent_filter_omitted:
  assumes "name request = ''search''"
    and "arguments request = JObj kvs"
    and "map_of kvs ''search_recency_filter'' = None"
  shows "outbound (snd (call_tool cfg env gw request w))
           = outbound w @ [search_request cfg env (JObj kvs)]
         \<and> body (search_request cfg env (JObj kvs)) =
             JObj [(''model'', JStr (model cfg)),
                   (''messages'', JArr [JObj [(''role'', JStr ''user''),
                                              (''content'', prop_of (JObj kvs) ''query'')]]),
                   (''max_tokens'', JNum (maxTokens cfg)),
                   (''temperature'', JNum (temperature cfg))]"
  using assms
  by (simp add: call_tool_def search_issues_request nullish_def search_request_def search_payload_def)

theorem absent_filter_omitted_witness:
  "outbound (snd (call_tool (new_config ''sonar'') example_env (answering paris_response)
                    france_request empty_world))
     = [search_request (new_config ''sonar'') example_env (arguments france_request)]
   \<and> body (search_request (new_config ''sonar'') example_env (arguments france_request)) =
       JObj [(''model'', JStr ''sonar''),
             (''messages'', JArr [JObj [(''role'', JStr ''user''),
                                        (''content'', JStr ''capital of France'')]]),
             (''max_tokens'', JNum (Dec 8192 0)),
             (''temperature'', JNum (Dec 2 (- 1)))]"
proof -
  have n: "name france_request = ''search''" by (simp add: france_request_def)
  have a: "arguments france_request = JObj [(''query'', JStr ''capital of France'')]"
    by (simp add: france_request_def)
  have m: "map_of [(''query'', JStr ''capital of France'')] ''search_recency_filter'' = None"
    by simp
  show ?thesis
    using absent_filter_omitted [where gw = "answering paris_response" and w = empty_world
        and cfg = "new_config ''sonar''" and env = example_env, OF n a m]
    by (simp add: a empty_world_def new_config_def)
qed

subsection \<open>The outbound call\<close>

text \<open>
  C6. A search with query \<open>q\<close>, on a server started with the model \<open>m\<close>, adds exactly
  one call to the outbound calls: a POST to \<open>https://api.perplexity.ai/chat/completions\<close>
  whose \<open>Authorization\<close> header is \<open>Bearer\<close> and the API key of the environment, and
  whose body holds the model, one message of role \<open>user\<close> with content \<open>q\<close>,
  \<open>max_tokens\<close> 8192, \<open>temperature\<close> 0.2, and \<open>search_recency_filter\<close> only when the
  arguments give it (a truthy value). This holds whatever the gateway answers.
\<close>

theorem search_outbound_call:
  assumes "name request = ''search''"
    and "\<not> nullish (arguments request)"
    and "q = prop_of (arguments request) ''query''"
    and "f = prop_of (arguments request) ''search_recency_filter''"
  shows "outbound (snd (call_tool (new_config m) env gw request w))
           = outbound w @
             [\<lparr>http_method = ''POST'',
               url = ''https://api.perplexity.ai/chat/completions'',
               headers =
                 [(''Authorization'',
                     ''Bearer '' @ (case env ''PERPLEXITY_API_KEY'' of
                                      Some apiKey \<Rightarrow> apiKey | None \<Rightarrow> ''undefined'')),
                  (''Content-Type'', ''application/json'')],
               body = JObj ([(''model'', JStr m),
                             (''messages'', JArr [JObj [(''role'', JStr ''user''), (''content'', q)]]),
                             (''max_tokens'', JNum (Dec 8192 0)),
                             (''temperature'', JNum (Dec 2 (- 1)))]
                            @ (if truthy f then [(''search_recency_filter'', f)] else []))\<rparr>]
         \<and> number_to_string (Dec 8192 0) = ''8192''
         \<and> number_to_string (Dec 2 (- 1)) = ''0.2''"
  using assms
  by (simp add: call_tool_def search_issues_request search_request_def search_payload_def
      new_config_def env_text_def number_texts)

theorem search_outbound_call_witness:
  "outbound (snd (call_tool (new_config ''sonar-pro'') example_env (answering paris_response)
                    week_request empty_world))
     = [\<lparr>http_method = ''POST'',
         url = ''https://api.perplexity.ai/chat/completions'',
         headers = [(''Authorization'', ''Bearer pplx-key''),
                    (''Content-Type'', ''application/json'')],
         body = JObj [(''model'', JStr ''sonar-pro''),
                      (''messages'', JArr [JObj [(''role'', JStr ''user''),
                                                 (''content'', JStr ''capital of France'')]]),
                      (''max_tokens'', JNum (Dec 8192 0)),
                      (''temperature'', JNum (Dec 2 (- 1))),
                      (''search_recency_filter'', JStr ''week'')]\<rparr>]"
proof -
  have n: "name week_request = ''search''" by (simp add: week_request_def)
  have a: "\<not> nullish (arguments week_request)" by (simp add: week_request_def nullish_def)
  show ?thesis
    using search_outbound_call [where gw = "answering paris_response" and w = empty_world
        and m = "''sonar-pro''" and env = example_env, OF n a refl refl]
    by (simp add: week_request_def empty_world_def example_env_def)
qed

subsection \<open>Errors that are not HTTP failures\<close>

text \<open>
  C9. When the outbound call throws a value that is not an axios error, or the reading of
  the response throws one, the handler returns no result: the same value leaves the
  handler.
\<close>

theorem non_axios_error_propagates:
  assumes "name request = ''search''"
    and "\<not> nullish (arguments request)"
    and "\<not> isAxiosError e"
    and "axios_post (gw (outbound w) (search_request cfg env (arguments request))) = Inl e
         \<or> (\<exists>response.
               axios_post (gw (outbound w) (search_request cfg env (arguments request)))
                 = Inr response
               \<and> format_response response = Inl e)"
  shows "fst (call_tool cfg env gw request w) = Inl e"
  using assms by (auto simp: call_tool_def search_result catch_block_other)

theorem non_axios_error_propagates_witness:
  "fst (call_tool (new_config ''sonar-pro'') example_env (throwing (Error ''unexpected''))
          france_request empty_world) = Inl (Error ''unexpected'')
   \<and> fst (call_tool (new_config ''sonar-pro'') example_env (answering null_choice_response)
            france_request empty_world) = Inl TypeError"
proof -
  have n: "name france_request = ''search''" by (simp add: france_request_def)
  have a: "\<not> nullish (arguments france_request)" by (simp add: france_request_def nullish_def)
  have t: "axios_post (throwing (Error ''unexpected'') (outbound empty_world)
             (search_request (new_config ''sonar-pro'') example_env (arguments france_request)))
           = Inl (Error ''unexpected'')"
    by (simp add: throwing_def axios_post_def)
  have r: "axios_post (answering null_choice_response (outbound empty_world)
             (search_request (new_config ''sonar-pro'') example_env (arguments france_request)))
           = Inr null_choice_response"
    by (simp add: answering_def axios_post_def null_choice_response_def)
  have f: "format_response null_choice_response = Inl TypeError"
    by (simp add: format_response_def null_choice_response_def get_prop_def nullish_def)
  have "fst (call_tool (new_config ''sonar-pro'') example_env (throwing (Error ''unexpected''))
          france_request empty_world) = Inl (Error ''unexpected'')"
    using non_axios_error_propagates [where gw = "throwing (Error ''unexpected'')"
        and w = empty_world and e = "Error ''unexpected''", OF n a] t
    by simp
  moreover have "fst (call_tool (new_config ''sonar-pro'') example_env (answering null_choice_response)
            france_request empty_world) = Inl TypeError"
    using non_axios_error_propagates [where gw = "answering null_choice_response"
        and w = empty_world and e = TypeError, OF n a] r f
    by simp
  ultimately show ?thesis by simp
qed

text \<open>
  C10. When the gateway answers with a status from 200 to 299 and a body whose \<open>choices\<close>
  is absent or the empty list, the handler returns no result: reading the first choice
  throws a TypeError, which is not an axios error, so the catch block throws it again.
\<close>

theorem empty_choices_faults:
  assumes "name request = ''search''"
    and "\<not> nullish (arguments request)"
    and "gw (outbound w) (search_request cfg env (arguments request)) = Answered response"
    and "200 \<le> status response" and "status response < 300"
    and "prop_of (data response) ''choices'' = JUndefined
         \<or> prop_of (data response) ''choices'' = JArr []"
  shows "fst (call_tool cfg env gw request w) = Inl TypeError
         \<and> \<not> isAxiosError TypeError
         \<and> catch_block TypeError = Inl TypeError"
proof -
  have "axios_post (gw (outbound w) (search_request cfg env (arguments request))) = Inr response"
    using assms(3,4,5) by (simp add: axios_post_def)
  then show ?thesis
    using assms(1,2) format_response_no_choice [OF assms(6)]
    by (simp add: call_tool_def search_result catch_block_other)
qed

theorem empty_choices_faults_witness:
  "fst (call_tool (new_config ''sonar-pro'') example_env (answering empty_choices_response)
          france_request empty_world) = Inl TypeError
   \<and> fst (call_tool (new_config ''sonar-pro'') example_env (answering no_choices_response)
            france_request empty_world) = Inl TypeError"
proof -
  have n: "name france_request = ''search''" by (simp add: france_request_def)
  have a: "\<not> nullish (arguments france_request)" by (simp add: france_request_def nullish_def)
  have "fst (call_tool (new_config ''sonar-pro'') example_env (answering empty_choices_response)
          france_request empty_world) = Inl TypeError"
    using empty_choices_faults [where gw = "answering empty_choices_response"
        and w = empty_world and response = empty_choices_response, OF n a]
    by (simp add: answering_def empty_choices_response_def)
  moreover have "fst (call_tool (new_config ''sonar-pro'') example_env (answering no_choices_response)
            france_request empty_world) = Inl TypeError"
    using empty_choices_faults [where gw = "answering no_choices_response"
        and w = empty_world and response = no_choices_response, OF n a]
    by (simp add: answering_def no_choices_response_def)
  ultimately show ?thesis by simp
qed

section \<open>Properties of the dispatcher and of list-tools\<close>

lemma serve_protocol_error:
  assumes "handle cfg env gw r w = (Inl e, w)" and "isMcpError e"
  shows "serve fatal cfg env gw (r # rs) w =
           (ErrorReply e # fst (serve fatal cfg env gw rs w), snd (serve fatal cfg env gw rs w))"
  using assms by (simp add: split_beta)

lemma serve_list_tools:
  "serve fatal cfg env gw (replicate n ListTools) w
     = (replicate n (ToolsReply (JObj [(''tools'', JArr [search_descriptor])])), w)"
  by (induction n) (simp_all add: handle_def list_tools_def)

lemma list_tools_world: "((\<lambda>v. snd (list_tools v)) ^^ n) w = w"
  by (induction n) (simp_all add: list_tools_def)

text \<open>
  C5. A call whose tool name is not \<open>search\<close> throws the protocol error MethodNotFound
  and leaves the world as it was: no outbound call is issued, and any later call is handled
  as if this one had not been made. On a connection, the request gets that error as its
  reply and the requests after it are served.
\<close>

theorem unknown_tool:
  assumes "name request \<noteq> ''search''"
  shows "call_tool cfg env gw request w
           = (Inl (McpError MethodNotFound (''Unknown tool: '' @ name request)), w)
         \<and> call_tool cfg env gw later (snd (call_tool cfg env gw request w))
           = call_tool cfg env gw later w
         \<and> serve fatal cfg env gw (CallTool request # rest) w
           = (ErrorReply (McpError MethodNotFound (''Unknown tool: '' @ name request))
                # fst (serve fatal cfg env gw rest w),
              snd (serve fatal cfg env gw rest w))"
proof -
  have c: "call_tool cfg env gw request w
             = (Inl (McpError MethodNotFound (''Unknown tool: '' @ name request)), w)"
    using assms by (simp add: call_tool_def)
  then have h: "handle cfg env gw (CallTool request) w
             = (Inl (McpError MethodNotFound (''Unknown tool: '' @ name request)), w)"
    by (simp add: handle_def)
  have "isMcpError (McpError MethodNotFound (''Unknown tool: '' @ name request))"
    by simp
  from serve_protocol_error [OF h this] c show ?thesis
    by simp
qed

theorem unknown_tool_witness:
  "call_tool (new_config ''sonar-pro'') example_env (answering paris_response) unknown_request empty_world
     = (Inl (McpError MethodNotFound ''Unknown tool: translate''), empty_world)
   \<and> fst (serve never_fatal (new_config ''sonar-pro'') example_env (answering paris_response)
            [CallTool unknown_request, CallTool france_request] empty_world)
     = [ErrorReply (McpError MethodNotFound ''Unknown tool: translate''),
        CallReply \<lparr>content =
            [\<lparr>block_type = ''text'',
              block_text = JSON_stringify
                (JObj [(''content'', JStr ''Paris''), (''citations'', JArr [JStr ''https://a''])])\<rparr>],
          isError = None\<rparr>]"
proof -
  have n: "name unknown_request \<noteq> ''search''" by (simp add: unknown_request_def)
  have s: "fst (serve never_fatal (new_config ''sonar-pro'') example_env (answering paris_response)
                  [CallTool france_request] empty_world)
           = [CallReply \<lparr>content =
            [\<lparr>block_type = ''text'',
              block_text = JSON_stringify
                (JObj [(''content'', JStr ''Paris''), (''citations'', JArr [JStr ''https://a''])])\<rparr>],
          isError = None\<rparr>]"
    by (simp add: handle_def call_tool_def france_request_def search_def nullish_def Let_def
        answering_def axios_post_def paris_response_def format_response_def get_prop_def
        js_or_def split_beta)
  show ?thesis
    using unknown_tool [where request = unknown_request and gw = "answering paris_response"
        and w = empty_world and cfg = "new_config ''sonar-pro''" and env = example_env
        and fatal = never_fatal and rest = "[CallTool france_request]", OF n] s
    by (simp add: unknown_request_def)
qed

text \<open>
  C8. List-tools returns the same list in every world and changes nothing, so every call,
  after any number of earlier list-tools calls and after a tool call, returns the same
  list: one descriptor, named \<open>search\<close>, whose input schema requires \<open>query\<close>, a
  string, and has the property \<open>search_recency_filter\<close>, a string of the enum month,
  week, day, hour, which is not required.
\<close>

theorem list_tools_constant:
  "list_tools w = (Inr (JObj [(''tools'', JArr [search_descriptor])]), w)
   \<and> fst (list_tools (((\<lambda>v. snd (list_tools v)) ^^ n) w))
       = Inr (JObj [(''tools'', JArr [search_descriptor])])
   \<and> fst (list_tools (snd (call_tool cfg env gw request w)))
       = Inr (JObj [(''tools'', JArr [search_descriptor])])
   \<and> prop_of search_descriptor ''name'' = JStr ''search''
   \<and> prop_of (prop_of search_descriptor ''inputSchema'') ''required'' = JArr [JStr ''query'']
   \<and> prop_of (prop_of (prop_of (prop_of search_descriptor ''inputSchema'') ''properties'')
        ''query'') ''type'' = JStr ''string''
   \<and> prop_of (prop_of (prop_of (prop_of search_descriptor ''inputSchema'') ''properties'')
        ''search_recency_filter'') ''type'' = JStr ''string''
   \<and> prop_of (prop_of (prop_of (prop_of search_descriptor ''inputSchema'') ''properties'')
        ''search_recency_filter'') ''enum''
       = JArr [JStr ''month'', JStr ''week'', JStr ''day'', JStr ''hour'']"
  by (simp add: list_tools_world) (simp add: list_tools_def search_descriptor_def)

theorem list_tools_constant_witness:
  "list_tools empty_world = (Inr (JObj [(''tools'', JArr [search_descriptor])]), empty_world)
   \<and> fst (list_tools (snd (list_tools (snd (list_tools empty_world)))))
       = Inr (JObj [(''tools'', JArr [search_descriptor])])"
proof -
  have l: "\<And>w. list_tools w = (Inr (JObj [(''tools'', JArr [search_descriptor])]), w)"
    using list_tools_constant by blast
  show ?thesis
    by (simp add: l)
qed

section \<open>Properties of the startup\<close>

lemma indexOf_absent: "x \<notin> set xs \<Longrightarrow> indexOf xs x = - 1"
  by (induction xs) auto

lemma indexOf_first:
  "x \<notin> set pre \<Longrightarrow> indexOf (pre @ x # post) x = int (length pre)"
  by (induction pre) (auto simp: Let_def)

text \<open>
  Where the model comes from: \<open>sonar-pro\<close> without the flag, the argument after the first
  \<open>--model\<close> with it, and undefined when the flag is the last argument.
\<close>

lemma model_from_argv_default:
  "''--model'' \<notin> set argv \<Longrightarrow> model_from_argv argv = Some ''sonar-pro''"
  by (simp add: model_from_argv_def indexOf_absent)

lemma model_from_argv_flag:
  "''--model'' \<notin> set pre \<Longrightarrow> model_from_argv (pre @ ''--model'' # v # post) = Some v"
  by (simp add: model_from_argv_def indexOf_first at_index_def nat_add_distrib nth_append
      del: One_nat_def)

lemma model_from_argv_last:
  "''--model'' \<notin> set pre \<Longrightarrow> model_from_argv (pre @ [''--model'']) = None"
  by (simp add: model_from_argv_def indexOf_first at_index_def)

lemma check_model_invalid:
  "m \<noteq> Some ''sonar'' \<Longrightarrow> m \<noteq> Some ''sonar-pro'' \<Longrightarrow>
     check_model m = Inl (Error invalid_model_message)"
  by (cases m) (auto simp: check_model_def array_includes_def)

lemma check_model_valid:
  "m = ''sonar'' \<or> m = ''sonar-pro'' \<Longrightarrow> check_model (Some m) = Inr m"
  by (auto simp: check_model_def array_includes_def)

text \<open>
  With one of the two models the stdio variant starts: a configuration results and the
  transport is bound. The HTTP variant ends at its line 33 with a ReferenceError, before
  any handler is set and before it listens.
\<close>

lemma startup_valid:
  assumes "model_from_argv argv = Some m" and "m = ''sonar'' \<or> m = ''sonar-pro''"
  shows "fst (main_stdio argv) = Inr (new_config m)"
    and "list_ex binds_transport (snd (main_stdio argv))"
    and "list_ex serves_requests (snd (main_stdio argv))"
  using assms check_model_valid [OF assms(2)]
  by (simp_all add: main_stdio_def PerplexityServer_constructor_def run_def)

lemma main_http_valid:
  assumes "model_from_argv argv = Some m" and "m = ''sonar'' \<or> m = ''sonar-pro''"
  shows "fst (main_http argv env) = Inl (ReferenceError ''server'')"
    and "\<not> list_ex binds_transport (snd (main_http argv env))"
    and "\<not> list_ex serves_requests (snd (main_http argv env))"
  using assms check_model_valid [OF assms(2)]
  by (simp_all add: main_http_def)

text \<open>
  C7. When the model taken from the command line (\<open>sonar-pro\<close> without the flag) is
  neither \<open>sonar\<close> nor \<open>sonar-pro\<close>, the startup of both variants ends with the error
  \<open>Invalid model\<close> after the environment was loaded and nothing else: no server exists, no
  request handler is set, and no transport is bound.
\<close>

theorem invalid_model_fails_startup:
  assumes "model_from_argv argv \<noteq> Some ''sonar''"
    and "model_from_argv argv \<noteq> Some ''sonar-pro''"
  shows "main_stdio argv = (Inl (Error invalid_model_message), [DotenvConfig])
         \<and> main_http argv env = (Inl (Error invalid_model_message), [DotenvConfig])
         \<and> \<not> list_ex binds_transport (snd (main_stdio argv))
         \<and> \<not> list_ex serves_requests (snd (main_stdio argv))
         \<and> \<not> list_ex binds_transport (snd (main_http argv env))
         \<and> \<not> list_ex serves_requests (snd (main_http argv env))"
  using check_model_invalid [OF assms]
  by (simp add: main_stdio_def PerplexityServer_constructor_def main_http_def)

theorem invalid_model_fails_startup_witness:
  "model_from_argv [''node'', ''index.js'', ''--model'', ''foo''] = Some ''foo''
   \<and> main_stdio [''node'', ''index.js'', ''--model'', ''foo'']
       = (Inl (Error invalid_model_message), [DotenvConfig])
   \<and> main_http [''node'', ''index.js'', ''--model'', ''foo''] example_env
       = (Inl (Error invalid_model_message), [DotenvConfig])"
proof -
  have m: "model_from_argv [''node'', ''index.js'', ''--model'', ''foo''] = Some ''foo''"
    by (simp add: model_from_argv_def at_index_def Let_def)
  have a: "model_from_argv [''node'', ''index.js'', ''--model'', ''foo''] \<noteq> Some ''sonar''"
    and b: "model_from_argv [''node'', ''index.js'', ''--model'', ''foo''] \<noteq> Some ''sonar-pro''"
    by (simp_all add: m)
  show ?thesis
    using invalid_model_fails_startup [OF a b, of example_env] m by simp
qed

end
